theory Spec2Isabelle
  imports Main
begin

section \<open>Package errors: path-aware errors (src/errors/error.go)\<close>

subsection \<open>Error values and the store of PathError and MultiPathError objects\<close>

text \<open>
  A Go \<^verbatim>\<open>error\<close> is an interface value. The operations of the package distinguish
  \<^item> the nil interface,
  \<^item> a pointer to a \<^verbatim>\<open>PathError\<close> or to a \<^verbatim>\<open>MultiPathError\<close>, the two implementers of
    the interface \<^verbatim>\<open>Error\<close>; the objects are mutated in place, so they live in a store and
    the error value is their address,
  \<^item> the value built by \<^verbatim>\<open>pkgerrors.Wrapf(cause, msg)\<close>: its message is
    \<^verbatim>\<open>msg + ": " + cause.Error()\<close> and its \<^verbatim>\<open>Unwrap\<close> returns the cause, which is what
    \<^verbatim>\<open>errors.As\<close> follows,
  \<^item> any other error (\<^verbatim>\<open>errors.New\<close>, \<^verbatim>\<open>fmt.Errorf\<close> without \<^verbatim>\<open>%w\<close>): immutable, no
    \<^verbatim>\<open>Unwrap\<close>, known by its message.
\<close>

type_synonym addr = nat

datatype ref = PathErrorRef addr | MultiPathErrorRef addr

datatype error =
    NilErr
  | Foreign string
  | WithMessage string error
  | Ref ref

text \<open>\<^verbatim>\<open>type PathError struct { Path string; Node ast.Node; EnabledColor bool; Err error }\<close>.
  The type \<open>'n\<close> stands for the non-nil values of \<^verbatim>\<open>ast.Node\<close>.\<close>

record 'n PathError =
  Path :: string
  Node :: "'n option"
  EnabledColor :: bool
  Err :: error

text \<open>\<^verbatim>\<open>type MultiPathError struct { Node ast.Node; Errs []error }\<close>. Every object owns its
  \<^verbatim>\<open>Errs\<close> slice (two objects sharing one backing array are not modelled).\<close>

record 'n MultiPathError =
  MultiNode :: "'n option"
  Errs :: "error list"

text \<open>The store: the address of an object is its index; allocation appends. An address
  past the end stands for a nil pointer of that type, and using it panics.\<close>

record 'n heap =
  paths :: "'n PathError list"
  multis :: "'n MultiPathError list"

text \<open>The outcome of a call: it returns, it panics (a nil dereference), or the recursion
  through the store did not end within the given depth (\<open>Diverged\<close>: the fuel ran out).\<close>

datatype 'a res = Diverged | Panicked | Returned 'a

subsection \<open>Constructors\<close>

text \<open>\<^verbatim>\<open>func Errors(errs ...error) error\<close>: nil for no argument, else a new MultiPathError.\<close>

definition Errors :: "'n heap \<Rightarrow> error list \<Rightarrow> 'n heap \<times> error" where
  "Errors h errs =
     (if length errs = 0 then (h, NilErr)
      else (h\<lparr>multis := multis h @ [\<lparr>MultiNode = None, Errs = errs\<rparr>]\<rparr>,
            Ref (MultiPathErrorRef (length (multis h)))))"

subsection \<open>errors.As and pkgerrors.Wrapf\<close>

text \<open>\<^verbatim>\<open>var e Error; errors.As(err, &e)\<close>: the first error on the \<^verbatim>\<open>Unwrap\<close> chain of
  \<^verbatim>\<open>err\<close> (itself first) that implements \<^verbatim>\<open>Error\<close>. Neither PathError nor MultiPathError
  has an \<^verbatim>\<open>Unwrap\<close> method, so the chain ends there.\<close>

fun as_Error :: "error \<Rightarrow> ref option" where
  "as_Error NilErr = None"
| "as_Error (Foreign m) = None"
| "as_Error (WithMessage m c) = as_Error c"
| "as_Error (Ref r) = Some r"

text \<open>\<^verbatim>\<open>errors.As(err, &e)\<close> with \<^verbatim>\<open>e\<close> of type \<^verbatim>\<open>*MultiPathError\<close>, as
  \<^verbatim>\<open>MultiPathError.wrapf\<close> calls it with its own receiver.\<close>

fun as_MultiPathError :: "error \<Rightarrow> addr option" where
  "as_MultiPathError NilErr = None"
| "as_MultiPathError (Foreign m) = None"
| "as_MultiPathError (WithMessage m c) = as_MultiPathError c"
| "as_MultiPathError (Ref (PathErrorRef a)) = None"
| "as_MultiPathError (Ref (MultiPathErrorRef a)) = Some a"

text \<open>\<^verbatim>\<open>pkgerrors.Wrapf(err, format, args...)\<close> is nil for a nil \<^verbatim>\<open>err\<close>. Throughout,
  \<open>msg\<close> is the formatted text \<^verbatim>\<open>fmt.Sprintf(format, args...)\<close>.\<close>

definition pkg_Wrapf :: "error \<Rightarrow> string \<Rightarrow> error" where
  "pkg_Wrapf err msg = (if err = NilErr then NilErr else WithMessage msg err)"

subsection \<open>Loops over a slice\<close>

text \<open>\<^verbatim>\<open>for idx := range xs { body }\<close> with the store threaded through; a panic or a
  divergence of the body ends the loop.\<close>

fun for_each :: "('s \<Rightarrow> 'i \<Rightarrow> 's res) \<Rightarrow> 's \<Rightarrow> 'i list \<Rightarrow> 's res" where
  "for_each body h [] = Returned h"
| "for_each body h (i # is) =
     (case body h i of
        Returned h' \<Rightarrow> for_each body h' is
      | Diverged \<Rightarrow> Diverged
      | Panicked \<Rightarrow> Panicked)"

text \<open>The element \<^verbatim>\<open>e.Errs[idx]\<close> of the MultiPathError at \<open>a\<close>, read from the current
  store (a \<^verbatim>\<open>range\<close> loop reads each element when its iteration starts).\<close>

definition child :: "'n heap \<Rightarrow> addr \<Rightarrow> nat \<Rightarrow> error" where
  "child h a idx = Errs (multis h ! a) ! idx"

subsection \<open>The capability set: appendPath, wrapf, setNodeAndColored\<close>

text \<open>
  \<^verbatim>\<open>func (e *PathError) appendPath(path string) { e.Path = path + e.Path }\<close>
  \<^verbatim>\<open>func (e *MultiPathError) appendPath(path string)\<close>: for each child on which
  \<^verbatim>\<open>errors.As\<close> finds an \<^verbatim>\<open>Error\<close>, call its \<^verbatim>\<open>appendPath\<close>; skip the others.
  The fuel bounds the nesting of MultiPathErrors that is followed.
\<close>

fun appendPath :: "nat \<Rightarrow> 'n heap \<Rightarrow> ref \<Rightarrow> string \<Rightarrow> 'n heap res" where
  "appendPath n h (PathErrorRef a) path =
     (if a < length (paths h)
      then Returned (h\<lparr>paths := (paths h)[a := (paths h ! a)\<lparr>Path := path @ Path (paths h ! a)\<rparr>]\<rparr>)
      else Panicked)"
| "appendPath 0 h (MultiPathErrorRef a) path = Diverged"
| "appendPath (Suc n) h (MultiPathErrorRef a) path =
     (if a < length (multis h)
      then for_each
             (\<lambda>h' idx. case as_Error (child h' a idx) of
                          None \<Rightarrow> Returned h'
                        | Some e \<Rightarrow> appendPath n h' e path)
             h [0..<length (Errs (multis h ! a))]
      else Panicked)"

text \<open>
  \<^verbatim>\<open>func (e *PathError) setNodeAndColored(node ast.Node, colored bool)\<close> stores both fields;
  the MultiPathError forwards to the children as \<^verbatim>\<open>appendPath\<close> does.
\<close>

fun setNodeAndColored :: "nat \<Rightarrow> 'n heap \<Rightarrow> ref \<Rightarrow> 'n option \<Rightarrow> bool \<Rightarrow> 'n heap res" where
  "setNodeAndColored n h (PathErrorRef a) node colored =
     (if a < length (paths h)
      then Returned (h\<lparr>paths := (paths h)[a := (paths h ! a)\<lparr>Node := node, EnabledColor := colored\<rparr>]\<rparr>)
      else Panicked)"
| "setNodeAndColored 0 h (MultiPathErrorRef a) node colored = Diverged"
| "setNodeAndColored (Suc n) h (MultiPathErrorRef a) node colored =
     (if a < length (multis h)
      then for_each
             (\<lambda>h' idx. case as_Error (child h' a idx) of
                          None \<Rightarrow> Returned h'
                        | Some e \<Rightarrow> setNodeAndColored n h' e node colored)
             h [0..<length (Errs (multis h ! a))]
      else Panicked)"

text \<open>
  \<^verbatim>\<open>func Wrapf(err error, format string, args ...interface{}) error\<close> wraps in place when
  \<^verbatim>\<open>errors.As\<close> finds an \<^verbatim>\<open>Error\<close> and returns that \<^verbatim>\<open>Error\<close>; otherwise it allocates
  \<^verbatim>\<open>&PathError{Err: pkgerrors.Wrapf(err, format, args...)}\<close>.

  \<^verbatim>\<open>func (e *PathError) wrapf(...) { e.Err = Wrapf(e.Err, ...) }\<close>

  \<^verbatim>\<open>func (e *MultiPathError) wrapf(...)\<close>: for each index, \<^verbatim>\<open>errors.As(err, &e)\<close> is called
  with the receiver \<^verbatim>\<open>e\<close> (a \<^verbatim>\<open>*MultiPathError\<close>) as target. When it succeeds the method
  calls \<^verbatim>\<open>pathErr.wrapf\<close> on the nil interface \<^verbatim>\<open>pathErr\<close>, which panics; otherwise it
  stores \<^verbatim>\<open>Wrapf(err, ...)\<close> into \<^verbatim>\<open>e.Errs[idx]\<close>.
\<close>

fun Wrapf :: "nat \<Rightarrow> 'n heap \<Rightarrow> error \<Rightarrow> string \<Rightarrow> ('n heap \<times> error) res"
  and wrapf :: "nat \<Rightarrow> 'n heap \<Rightarrow> ref \<Rightarrow> string \<Rightarrow> 'n heap res" where
  "Wrapf 0 h err msg = Diverged"
| "Wrapf (Suc n) h err msg =
     (case as_Error err of
        Some e \<Rightarrow>
          (case wrapf n h e msg of
             Returned h' \<Rightarrow> Returned (h', Ref e)
           | Diverged \<Rightarrow> Diverged
           | Panicked \<Rightarrow> Panicked)
      | None \<Rightarrow>
          Returned (h\<lparr>paths := paths h @
                       [\<lparr>Path = [], Node = None, EnabledColor = False, Err = pkg_Wrapf err msg\<rparr>]\<rparr>,
                    Ref (PathErrorRef (length (paths h)))))"
| "wrapf 0 h e msg = Diverged"
| "wrapf (Suc n) h (PathErrorRef a) msg =
     (if a < length (paths h)
      then (case Wrapf n h (Err (paths h ! a)) msg of
              Returned (h', err') \<Rightarrow>
                Returned (h'\<lparr>paths := (paths h')[a := (paths h' ! a)\<lparr>Err := err'\<rparr>]\<rparr>)
            | Diverged \<Rightarrow> Diverged
            | Panicked \<Rightarrow> Panicked)
      else Panicked)"
| "wrapf (Suc n) h (MultiPathErrorRef a) msg =
     (if a < length (multis h)
      then for_each
             (\<lambda>h' idx. case as_MultiPathError (child h' a idx) of
                          Some b \<Rightarrow> Panicked
                        | None \<Rightarrow>
                            (case Wrapf n h' (child h' a idx) msg of
                               Returned (h'', err') \<Rightarrow>
                                 Returned (h''\<lparr>multis := (multis h'')
                                   [a := (multis h'' ! a)\<lparr>Errs := (Errs (multis h'' ! a))[idx := err']\<rparr>]\<rparr>)
                             | Diverged \<Rightarrow> Diverged
                             | Panicked \<Rightarrow> Panicked))
             h [0..<length (Errs (multis h ! a))]
      else Panicked)"

subsection \<open>The exported wrappers\<close>

text \<open>\<^verbatim>\<open>func WithPath(err error, path string) error\<close>; \<^verbatim>\<open>fmt.Sprintf(".%s", path)\<close> is
  \<open>''.'' @ path\<close>.\<close>

definition WithPath :: "nat \<Rightarrow> 'n heap \<Rightarrow> error \<Rightarrow> string \<Rightarrow> ('n heap \<times> error) res" where
  "WithPath n h err path =
     (case as_Error err of
        Some e \<Rightarrow>
          (case appendPath n h e (''.'' @ path) of
             Returned h' \<Rightarrow> Returned (h', Ref e)
           | Diverged \<Rightarrow> Diverged
           | Panicked \<Rightarrow> Panicked)
      | None \<Rightarrow>
          Returned (h\<lparr>paths := paths h @
                       [\<lparr>Path = ''.'' @ path, Node = None, EnabledColor = False, Err = err\<rparr>]\<rparr>,
                    Ref (PathErrorRef (length (paths h)))))"

text \<open>\<^verbatim>\<open>func WithQuery(err error, q *query.Query) error\<close>; \<open>qs\<close> is \<^verbatim>\<open>q.String()\<close>.\<close>

definition WithQuery :: "nat \<Rightarrow> 'n heap \<Rightarrow> error \<Rightarrow> string \<Rightarrow> ('n heap \<times> error) res" where
  "WithQuery n h err qs =
     (case as_Error err of
        Some e \<Rightarrow>
          (case appendPath n h e qs of
             Returned h' \<Rightarrow> Returned (h', Ref e)
           | Diverged \<Rightarrow> Diverged
           | Panicked \<Rightarrow> Panicked)
      | None \<Rightarrow>
          Returned (h\<lparr>paths := paths h @
                       [\<lparr>Path = qs, Node = None, EnabledColor = False, Err = err\<rparr>]\<rparr>,
                    Ref (PathErrorRef (length (paths h)))))"

text \<open>\<^verbatim>\<open>func WrapPathf(err error, path, message string, args ...interface{}) error\<close>.\<close>

definition WrapPathf :: "nat \<Rightarrow> 'n heap \<Rightarrow> error \<Rightarrow> string \<Rightarrow> string \<Rightarrow> ('n heap \<times> error) res" where
  "WrapPathf n h err path msg =
     (case as_Error err of
        Some e \<Rightarrow>
          (case wrapf n h e msg of
             Returned h' \<Rightarrow>
               (case appendPath n h' e (''.'' @ path) of
                  Returned h'' \<Rightarrow> Returned (h'', Ref e)
                | Diverged \<Rightarrow> Diverged
                | Panicked \<Rightarrow> Panicked)
           | Diverged \<Rightarrow> Diverged
           | Panicked \<Rightarrow> Panicked)
      | None \<Rightarrow>
          (case Wrapf n h err msg of
             Returned (h', err') \<Rightarrow>
               Returned (h'\<lparr>paths := paths h' @
                            [\<lparr>Path = ''.'' @ path, Node = None, EnabledColor = False, Err = err'\<rparr>]\<rparr>,
                         Ref (PathErrorRef (length (paths h'))))
           | Diverged \<Rightarrow> Diverged
           | Panicked \<Rightarrow> Panicked))"

text \<open>\<^verbatim>\<open>func WithNodeAndColored(err error, node ast.Node, colored bool) error\<close>.\<close>

definition WithNodeAndColored ::
  "nat \<Rightarrow> 'n heap \<Rightarrow> error \<Rightarrow> 'n option \<Rightarrow> bool \<Rightarrow> ('n heap \<times> error) res" where
  "WithNodeAndColored n h err node colored =
     (case as_Error err of
        Some e \<Rightarrow>
          (case setNodeAndColored n h e node colored of
             Returned h' \<Rightarrow> Returned (h', Ref e)
           | Diverged \<Rightarrow> Diverged
           | Panicked \<Rightarrow> Panicked)
      | None \<Rightarrow> Returned (h, err))"

subsection \<open>Rendering: the Error methods\<close>

text \<open>The three operations of the YAML library that \<^verbatim>\<open>PathError.yml\<close> uses are parameters:
  \<^verbatim>\<open>yaml.PathString\<close> (\<open>None\<close> when it returns a nil path or an error),
  \<^verbatim>\<open>path.FilterNode\<close> (\<open>None\<close> when it returns a nil node or an error) and
  \<^verbatim>\<open>printer.PrintErrorToken(node.GetToken(), colored)\<close>.\<close>

record ('n, 'q) yaml =
  PathString :: "string \<Rightarrow> 'q option"
  FilterNode :: "'q \<Rightarrow> 'n \<Rightarrow> 'n option"
  PrintErrorToken :: "'n \<Rightarrow> bool \<Rightarrow> string"

text \<open>\<^verbatim>\<open>func (e *PathError) yml() string\<close>.\<close>

definition yml :: "('n, 'q) yaml \<Rightarrow> 'n PathError \<Rightarrow> string" where
  "yml y e =
     (case Node e of
        None \<Rightarrow> []
      | Some node \<Rightarrow>
          (case PathString y (''$'' @ Path e) of
             None \<Rightarrow> []
           | Some path \<Rightarrow>
               (case FilterNode y path node of
                  None \<Rightarrow> []
                | Some node' \<Rightarrow> PrintErrorToken y node' (EnabledColor e))))"

definition newline :: char where
  "newline = CHR 0x0A"

definition tab :: char where
  "tab = CHR 0x09"

text \<open>\<^verbatim>\<open>strings.HasSuffix(s, "\n")\<close>.\<close>

definition HasSuffix_newline :: "string \<Rightarrow> bool" where
  "HasSuffix_newline s = (s \<noteq> [] \<and> last s = newline)"

text \<open>The body of \<^verbatim>\<open>func (e *PathError) Error() string\<close>, given the text \<open>cause\<close> that
  \<^verbatim>\<open>e.Err.Error()\<close> returned.\<close>

definition PathError_Error :: "('n, 'q) yaml \<Rightarrow> 'n PathError \<Rightarrow> string \<Rightarrow> string" where
  "PathError_Error y e cause =
     (if yml y e \<noteq> []
      then [newline] @ (if HasSuffix_newline (yml y e) then yml y e else yml y e @ [newline]) @ cause
      else if Path e \<noteq> [] then Path e @ '': '' @ cause
      else cause)"

text \<open>\<^verbatim>\<open>%d\<close> of a length.\<close>

fun decimal :: "nat \<Rightarrow> string" where
  "decimal n =
     (if n < 10 then [char_of (48 + n)]
      else decimal (n div 10) @ [char_of (48 + n mod 10)])"

text \<open>\<^verbatim>\<open>strings.TrimLeft(s, "\t")\<close> and \<^verbatim>\<open>strings.Join(points, "\n")\<close>.\<close>

definition TrimLeft_tab :: "string \<Rightarrow> string" where
  "TrimLeft_tab s = dropWhile (\<lambda>c. c = tab) s"

fun Join_newline :: "string list \<Rightarrow> string" where
  "Join_newline [] = []"
| "Join_newline [s] = s"
| "Join_newline (s # t # ss) = s @ [newline] @ Join_newline (t # ss)"

text \<open>The \<^verbatim>\<open>ErrorFormat\<close> closure of \<^verbatim>\<open>MultiPathError.Error\<close>, applied to the texts of the
  collected errors.\<close>

definition ErrorFormat :: "string list \<Rightarrow> string" where
  "ErrorFormat es =
     (if length es = 1 then ''1 error occurred:'' @ TrimLeft_tab (es ! 0) @ [newline, newline]
      else decimal (length es) @ '' errors occurred:''
             @ Join_newline (map TrimLeft_tab es) @ [newline, newline])"

text \<open>Calling a method on each element in order; the first panic or divergence ends it.\<close>

fun map_res :: "('a \<Rightarrow> 'b res) \<Rightarrow> 'a list \<Rightarrow> 'b list res" where
  "map_res f [] = Returned []"
| "map_res f (x # xs) =
     (case f x of
        Returned y \<Rightarrow>
          (case map_res f xs of
             Returned ys \<Rightarrow> Returned (y # ys)
           | Diverged \<Rightarrow> Diverged
           | Panicked \<Rightarrow> Panicked)
      | Diverged \<Rightarrow> Diverged
      | Panicked \<Rightarrow> Panicked)"

text \<open>
  \<^verbatim>\<open>err.Error()\<close>. On the nil interface the call panics. \<^verbatim>\<open>MultiPathError.Error\<close> hands
  its children to \<^verbatim>\<open>multierror.Append\<close>, which drops the nil ones, and formats the rest
  with \<^verbatim>\<open>ErrorFormat\<close>. The fuel bounds the depth of the chain of causes and children.
\<close>

fun Error_str :: "('n, 'q) yaml \<Rightarrow> nat \<Rightarrow> 'n heap \<Rightarrow> error \<Rightarrow> string res" where
  "Error_str y 0 h err = Diverged"
| "Error_str y (Suc n) h NilErr = Panicked"
| "Error_str y (Suc n) h (Foreign m) = Returned m"
| "Error_str y (Suc n) h (WithMessage m c) =
     (case Error_str y n h c of
        Returned s \<Rightarrow> Returned (m @ '': '' @ s)
      | Diverged \<Rightarrow> Diverged
      | Panicked \<Rightarrow> Panicked)"
| "Error_str y (Suc n) h (Ref (PathErrorRef a)) =
     (if a < length (paths h)
      then (case Error_str y n h (Err (paths h ! a)) of
              Returned s \<Rightarrow> Returned (PathError_Error y (paths h ! a) s)
            | Diverged \<Rightarrow> Diverged
            | Panicked \<Rightarrow> Panicked)
      else Panicked)"
| "Error_str y (Suc n) h (Ref (MultiPathErrorRef a)) =
     (if a < length (multis h)
      then (case map_res (\<lambda>c. Error_str y n h c)
                   (filter (\<lambda>c. c \<noteq> NilErr) (Errs (multis h ! a))) of
              Returned es \<Rightarrow> Returned (ErrorFormat es)
            | Diverged \<Rightarrow> Diverged
            | Panicked \<Rightarrow> Panicked)
      else Panicked)"

subsection \<open>Notions used to state the properties\<close>

text \<open>The dynamic type of \<open>err\<close> is \<^verbatim>\<open>*PathError\<close> or \<^verbatim>\<open>*MultiPathError\<close>: the value itself
  has the methods of the interface \<^verbatim>\<open>Error\<close>.\<close>

definition implements_Error :: "error \<Rightarrow> bool" where
  "implements_Error err = (case err of Ref r \<Rightarrow> True | _ \<Rightarrow> False)"

text \<open>The expression \<^verbatim>\<open>WithPath(WithPath(err, inner), outer)\<close>.\<close>

definition WithPath_twice ::
  "nat \<Rightarrow> 'n heap \<Rightarrow> error \<Rightarrow> string \<Rightarrow> string \<Rightarrow> ('n heap \<times> error) res" where
  "WithPath_twice n h err inner outer =
     (case WithPath n h err inner of
        Returned (h', err') \<Rightarrow> WithPath n h' err' outer
      | Diverged \<Rightarrow> Diverged
      | Panicked \<Rightarrow> Panicked)"

section \<open>Properties of package errors\<close>

text \<open>
  C9. \<^verbatim>\<open>Errors()\<close> with no argument returns nil and leaves the store as it is. With at least
  one argument (nil errors included) it returns a non-nil pointer to a newly allocated
  MultiPathError whose \<^verbatim>\<open>Errs\<close> is the argument list, in order; no existing object changes.
\<close>

theorem Errors_result:
  "Errors h [] = (h, NilErr) \<and>
   (errs \<noteq> [] \<longrightarrow>
     (\<exists>a. snd (Errors h errs) = Ref (MultiPathErrorRef a)
       \<and> snd (Errors h errs) \<noteq> NilErr
       \<and> a = length (multis h)
       \<and> a < length (multis (fst (Errors h errs)))
       \<and> Errs (multis (fst (Errors h errs)) ! a) = errs
       \<and> take a (multis (fst (Errors h errs))) = multis h
       \<and> paths (fst (Errors h errs)) = paths h))"
  by (simp add: Errors_def nth_append)

theorem Errors_result_witness:
  "[NilErr, Foreign ''boom''] \<noteq> []
   \<and> snd (Errors \<lparr>paths = ([] :: nat PathError list), multis = []\<rparr> [NilErr, Foreign ''boom''])
       = Ref (MultiPathErrorRef 0)
   \<and> Errs (multis (fst (Errors \<lparr>paths = ([] :: nat PathError list), multis = []\<rparr>
                               [NilErr, Foreign ''boom''])) ! 0)
       = [NilErr, Foreign ''boom'']"
  using Errors_result [of "\<lparr>paths = ([] :: nat PathError list), multis = []\<rparr>" "[NilErr, Foreign ''boom'']"]
  by simp

subsection \<open>Helper lemmas\<close>

lemma for_each_invariant:
  assumes "for_each body s xs = Returned s'"
    and "P s"
    and "\<And>t i t'. P t \<Longrightarrow> i \<in> set xs \<Longrightarrow> body t i = Returned t' \<Longrightarrow> P t'"
  shows "P s'"
  using assms
proof (induction xs arbitrary: s)
  case Nil
  then show ?case by simp
next
  case (Cons i xs)
  from Cons.prems(1) obtain t where t: "body s i = Returned t" and rest: "for_each body t xs = Returned s'"
    by (cases "body s i") simp_all
  have Pt: "P t" by (rule Cons.prems(3) [OF Cons.prems(2) _ t]) simp
  show ?case
  proof (rule Cons.IH [OF rest Pt])
    fix u j u'
    assume "P u" "j \<in> set xs" "body u j = Returned u'"
    then show "P u'" using Cons.prems(3) [of u j u'] by simp
  qed
qed

lemma map_update_same: "i < length xs \<Longrightarrow> (map f xs)[i := f (xs ! i)] = map f xs"
  by (simp add: list_eq_iff_nth_eq nth_list_update)

text \<open>\<^verbatim>\<open>setNodeAndColored\<close> allocates nothing, leaves every \<^verbatim>\<open>Errs\<close> slice as it is and
  writes no \<^verbatim>\<open>Path\<close> and no \<^verbatim>\<open>Err\<close> field.\<close>

lemma setNodeAndColored_frame:
  "setNodeAndColored n h r node colored = Returned h' \<Longrightarrow>
     multis h' = multis h \<and> length (paths h') = length (paths h)
     \<and> map Path (paths h') = map Path (paths h) \<and> map Err (paths h') = map Err (paths h)"
proof (induction n arbitrary: h r h')
  case 0
  then show ?case by (cases r) (auto split: if_splits simp: map_update map_update_same)
next
  case (Suc n)
  show ?case
  proof (cases r)
    case (PathErrorRef a)
    with Suc.prems show ?thesis by (auto split: if_splits simp: map_update map_update_same)
  next
    case (MultiPathErrorRef a)
    with Suc.prems have run: "for_each
             (\<lambda>h' idx. case as_Error (child h' a idx) of
                          None \<Rightarrow> Returned h'
                        | Some e \<Rightarrow> setNodeAndColored n h' e node colored)
             h [0..<length (Errs (multis h ! a))] = Returned h'"
      by (auto split: if_splits)
    let ?P = "\<lambda>t. multis t = multis h \<and> length (paths t) = length (paths h)
            \<and> map Path (paths t) = map Path (paths h) \<and> map Err (paths t) = map Err (paths h)"
    show ?thesis
    proof (rule for_each_invariant [OF run, where P = ?P])
      show "?P h" by simp
    next
      fix t i t'
      assume P: "?P t"
        and b: "(case as_Error (child t a i) of
                   None \<Rightarrow> Returned t
                 | Some e \<Rightarrow> setNodeAndColored n t e node colored) = Returned t'"
      show "?P t'"
      proof (cases "as_Error (child t a i)")
        case None
        with b P show ?thesis by simp
      next
        case (Some e)
        with b have "setNodeAndColored n t e node colored = Returned t'" by simp
        from Suc.IH [OF this] P show ?thesis by simp
      qed
    qed
  qed
qed

lemma implements_Error_as: "implements_Error err \<Longrightarrow> as_Error err = Some r \<Longrightarrow> Ref r = err"
  by (cases err) (simp_all add: implements_Error_def)

lemma Error_str_plain:
  "as_Error err = None \<Longrightarrow> Error_str y n h err = Error_str y n h' err"
proof (induction n arbitrary: err)
  case 0
  then show ?case by simp
next
  case (Suc n)
  show ?case
  proof (cases err)
    case (WithMessage m c)
    with Suc.prems have "as_Error c = None" by simp
    from Suc.IH [OF this] WithMessage show ?thesis by simp
  next
    case (Ref r)
    with Suc.prems show ?thesis by simp
  qed simp_all
qed

lemma yml_no_node: "Node e = None \<Longrightarrow> yml y e = []"
  by (simp add: yml_def)

lemma yml_nonempty_iff:
  "yml y e \<noteq> [] \<longleftrightarrow>
     (\<exists>node path node'. Node e = Some node \<and> PathString y (''$'' @ Path e) = Some path
        \<and> FilterNode y path node = Some node' \<and> PrintErrorToken y node' (EnabledColor e) \<noteq> []
        \<and> yml y e = PrintErrorToken y node' (EnabledColor e))"
  by (auto simp: yml_def split: option.splits)

subsection \<open>Rendering of a PathError\<close>

text \<open>
  C8. \<^verbatim>\<open>PathError.Error()\<close>, for a PathError whose cause renders as \<open>m\<close>, by precedence:
  when \<^verbatim>\<open>yml()\<close> is not empty, which needs an attached node, a path that parses, a node found
  under it and a non-empty printed excerpt, the result is a newline, the excerpt ended by
  a newline, then \<open>m\<close>; otherwise, when \<^verbatim>\<open>Path\<close> is not empty, it is exactly the path,
  \<^verbatim>\<open>": "\<close> and \<open>m\<close>; otherwise it is \<open>m\<close> alone.
\<close>

theorem PathError_Error_precedence:
  assumes "a < length (paths h)"
    and "Error_str y n h (Err (paths h ! a)) = Returned m"
  shows "(yml y (paths h ! a) \<noteq> [] \<longrightarrow>
            Node (paths h ! a) \<noteq> None \<and>
            Error_str y (Suc n) h (Ref (PathErrorRef a)) =
              Returned ([newline] @ yml y (paths h ! a)
                        @ (if last (yml y (paths h ! a)) = newline then [] else [newline]) @ m))
       \<and> (yml y (paths h ! a) = [] \<and> Path (paths h ! a) \<noteq> [] \<longrightarrow>
            Error_str y (Suc n) h (Ref (PathErrorRef a)) = Returned (Path (paths h ! a) @ '': '' @ m))
       \<and> (yml y (paths h ! a) = [] \<and> Path (paths h ! a) = [] \<longrightarrow>
            Error_str y (Suc n) h (Ref (PathErrorRef a)) = Returned m)
       \<and> (yml y (paths h ! a) \<noteq> [] \<longleftrightarrow>
            (\<exists>node path node'. Node (paths h ! a) = Some node
               \<and> PathString y (''$'' @ Path (paths h ! a)) = Some path
               \<and> FilterNode y path node = Some node'
               \<and> PrintErrorToken y node' (EnabledColor (paths h ! a)) \<noteq> []
               \<and> yml y (paths h ! a) = PrintErrorToken y node' (EnabledColor (paths h ! a))))"
  using assms yml_nonempty_iff [of y "paths h ! a"]
  by (auto simp: PathError_Error_def HasSuffix_newline_def)

theorem PathError_Error_precedence_witness:
  "Error_str \<lparr>PathString = (\<lambda>s. Some s), FilterNode = (\<lambda>q n. Some n), PrintErrorToken = (\<lambda>n c. ''> excerpt'')\<rparr>
      (Suc 0) \<lparr>paths = [\<lparr>Path = ''.a'', Node = Some (7::nat), EnabledColor = False, Err = Foreign ''boom''\<rparr>,
                  \<lparr>Path = ''.b'', Node = None, EnabledColor = False, Err = Foreign ''boom''\<rparr>,
                  \<lparr>Path = [], Node = None, EnabledColor = False, Err = Foreign ''boom''\<rparr>], multis = []\<rparr>
      (Foreign ''boom'') = Returned ''boom''
   \<and> Error_str \<lparr>PathString = (\<lambda>s. Some s), FilterNode = (\<lambda>q n. Some n), PrintErrorToken = (\<lambda>n c. ''> excerpt'')\<rparr>
      (Suc (Suc 0)) \<lparr>paths = [\<lparr>Path = ''.a'', Node = Some (7::nat), EnabledColor = False, Err = Foreign ''boom''\<rparr>,
                  \<lparr>Path = ''.b'', Node = None, EnabledColor = False, Err = Foreign ''boom''\<rparr>,
                  \<lparr>Path = [], Node = None, EnabledColor = False, Err = Foreign ''boom''\<rparr>], multis = []\<rparr>
      (Ref (PathErrorRef 0)) = Returned ([newline] @ ''> excerpt'' @ [newline] @ ''boom'')
   \<and> Error_str \<lparr>PathString = (\<lambda>s. Some s), FilterNode = (\<lambda>q n. Some n), PrintErrorToken = (\<lambda>n c. ''> excerpt'')\<rparr>
      (Suc (Suc 0)) \<lparr>paths = [\<lparr>Path = ''.a'', Node = Some (7::nat), EnabledColor = False, Err = Foreign ''boom''\<rparr>,
                  \<lparr>Path = ''.b'', Node = None, EnabledColor = False, Err = Foreign ''boom''\<rparr>,
                  \<lparr>Path = [], Node = None, EnabledColor = False, Err = Foreign ''boom''\<rparr>], multis = []\<rparr>
      (Ref (PathErrorRef (Suc 0))) = Returned ''.b: boom''
   \<and> Error_str \<lparr>PathString = (\<lambda>s. Some s), FilterNode = (\<lambda>q n. Some n), PrintErrorToken = (\<lambda>n c. ''> excerpt'')\<rparr>
      (Suc (Suc 0)) \<lparr>paths = [\<lparr>Path = ''.a'', Node = Some (7::nat), EnabledColor = False, Err = Foreign ''boom''\<rparr>,
                  \<lparr>Path = ''.b'', Node = None, EnabledColor = False, Err = Foreign ''boom''\<rparr>,
                  \<lparr>Path = [], Node = None, EnabledColor = False, Err = Foreign ''boom''\<rparr>], multis = []\<rparr>
      (Ref (PathErrorRef (Suc (Suc 0)))) = Returned ''boom''"
proof -
  let ?y = "\<lparr>PathString = (\<lambda>s. Some s), FilterNode = (\<lambda>q n. Some n), PrintErrorToken = (\<lambda>n c. ''> excerpt'')\<rparr> :: (nat, string) yaml"
  let ?h = "\<lparr>paths = [\<lparr>Path = ''.a'', Node = Some (7::nat), EnabledColor = False, Err = Foreign ''boom''\<rparr>,
                  \<lparr>Path = ''.b'', Node = None, EnabledColor = False, Err = Foreign ''boom''\<rparr>,
                  \<lparr>Path = [], Node = None, EnabledColor = False, Err = Foreign ''boom''\<rparr>], multis = []\<rparr>"
  have c0: "Error_str ?y (Suc 0) ?h (Err (paths ?h ! 0)) = Returned ''boom''"
    and c1: "Error_str ?y (Suc 0) ?h (Err (paths ?h ! Suc 0)) = Returned ''boom''"
    and c2: "Error_str ?y (Suc 0) ?h (Err (paths ?h ! Suc (Suc 0))) = Returned ''boom''"
    by simp_all
  have l0: "0 < length (paths ?h)" and l1: "Suc 0 < length (paths ?h)" and l2: "Suc (Suc 0) < length (paths ?h)"
    by simp_all
  have y0: "yml ?y (paths ?h ! 0) = ''> excerpt''"
    and y1: "yml ?y (paths ?h ! Suc 0) = []"
    and y2: "yml ?y (paths ?h ! Suc (Suc 0)) = []"
    by (simp_all add: yml_def)
  have n: "last ''> excerpt'' \<noteq> newline" by (simp add: newline_def)
  have r0: "Error_str ?y (Suc (Suc 0)) ?h (Ref (PathErrorRef 0))
              = Returned ([newline] @ ''> excerpt'' @ [newline] @ ''boom'')"
    using conjunct1 [OF PathError_Error_precedence [OF l0 c0]] y0 n by simp
  have r1: "Error_str ?y (Suc (Suc 0)) ?h (Ref (PathErrorRef (Suc 0))) = Returned ''.b: boom''"
    using conjunct1 [OF conjunct2 [OF PathError_Error_precedence [OF l1 c1]]] y1 by simp
  have r2: "Error_str ?y (Suc (Suc 0)) ?h (Ref (PathErrorRef (Suc (Suc 0)))) = Returned ''boom''"
    using conjunct1 [OF conjunct2 [OF conjunct2 [OF PathError_Error_precedence [OF l2 c2]]]] y2 by simp
  have c: "Error_str ?y (Suc 0) ?h (Foreign ''boom'') = Returned ''boom''" by simp
  from c r0 r1 r2 show ?thesis by (intro conjI)
qed

subsection \<open>WithNodeAndColored\<close>

text \<open>
  C10, as the code has it. When \<^verbatim>\<open>errors.As\<close> finds no \<^verbatim>\<open>Error\<close> on the chain of \<open>err\<close>,
  \<^verbatim>\<open>WithNodeAndColored\<close> returns \<open>err\<close> itself and the store is unchanged. When it finds
  one, the call sets the node and the colour flag of that \<^verbatim>\<open>Error\<close> in place and returns
  that \<^verbatim>\<open>Error\<close>: this is \<open>err\<close> itself exactly when \<open>err\<close> is a PathError or a
  MultiPathError. In no case is an object allocated, and no \<^verbatim>\<open>Path\<close>, \<^verbatim>\<open>Err\<close> or \<^verbatim>\<open>Errs\<close>
  is written.
\<close>

theorem WithNodeAndColored_result:
  "(as_Error err = None \<longrightarrow> WithNodeAndColored n h err node colored = Returned (h, err))
   \<and> (implements_Error err \<and> as_Error err = Some r \<longrightarrow> Ref r = err)
   \<and> (as_Error err = Some (PathErrorRef a) \<and> a < length (paths h) \<longrightarrow>
        WithNodeAndColored n h err node colored =
          Returned (h\<lparr>paths := (paths h)[a := (paths h ! a)\<lparr>Node := node, EnabledColor := colored\<rparr>]\<rparr>,
                    Ref (PathErrorRef a)))
   \<and> (as_Error err = Some r \<and> WithNodeAndColored n h err node colored = Returned (h', err') \<longrightarrow>
        err' = Ref r \<and> setNodeAndColored n h r node colored = Returned h'
        \<and> multis h' = multis h \<and> length (paths h') = length (paths h)
        \<and> map Path (paths h') = map Path (paths h) \<and> map Err (paths h') = map Err (paths h))"
proof (intro conjI impI)
  assume "as_Error err = None"
  then show "WithNodeAndColored n h err node colored = Returned (h, err)"
    by (simp add: WithNodeAndColored_def)
next
  assume "implements_Error err \<and> as_Error err = Some r"
  then show "Ref r = err" by (simp add: implements_Error_as)
next
  assume "as_Error err = Some (PathErrorRef a) \<and> a < length (paths h)"
  then show "WithNodeAndColored n h err node colored =
          Returned (h\<lparr>paths := (paths h)[a := (paths h ! a)\<lparr>Node := node, EnabledColor := colored\<rparr>]\<rparr>,
                    Ref (PathErrorRef a))"
    by (simp add: WithNodeAndColored_def)
next
  assume A: "as_Error err = Some r \<and> WithNodeAndColored n h err node colored = Returned (h', err')"
  then have a: "as_Error err = Some r"
    and w: "WithNodeAndColored n h err node colored = Returned (h', err')"
    by simp_all
  from w have run: "setNodeAndColored n h r node colored = Returned h'" and res: "err' = Ref r"
    unfolding WithNodeAndColored_def a
    by (cases "setNodeAndColored n h r node colored"; simp)+
  note fr = setNodeAndColored_frame [OF run]
  show "err' = Ref r" by (rule res)
  show "setNodeAndColored n h r node colored = Returned h'" by (rule run)
  show "multis h' = multis h" using fr by simp
  show "length (paths h') = length (paths h)" using fr by simp
  show "map Path (paths h') = map Path (paths h)" using fr by simp
  show "map Err (paths h') = map Err (paths h)" using fr by simp
qed
theorem WithNodeAndColored_result_witness:
  "WithNodeAndColored 0 \<lparr>paths = [], multis = []\<rparr> (Foreign ''boom'') (Some (7::nat)) True
     = Returned (\<lparr>paths = [], multis = []\<rparr>, Foreign ''boom'')
   \<and> WithNodeAndColored 0
        \<lparr>paths = [\<lparr>Path = ''.a'', Node = None, EnabledColor = False, Err = Foreign ''boom''\<rparr>],
         multis = []\<rparr>
        (Ref (PathErrorRef 0)) (Some (7::nat)) True
     = Returned
        (\<lparr>paths = [\<lparr>Path = ''.a'', Node = Some 7, EnabledColor = True, Err = Foreign ''boom''\<rparr>],
          multis = []\<rparr>,
         Ref (PathErrorRef 0))"
proof -
  let ?h = "\<lparr>paths = [\<lparr>Path = ''.a'', Node = None, EnabledColor = False, Err = Foreign ''boom''\<rparr>],
         multis = []\<rparr> :: nat heap"
  have n: "as_Error (Foreign ''boom'') = None" by simp
  have p: "as_Error (Ref (PathErrorRef 0)) = Some (PathErrorRef 0) \<and> 0 < length (paths ?h)" by simp
  have r1: "WithNodeAndColored 0 \<lparr>paths = [], multis = []\<rparr> (Foreign ''boom'') (Some (7::nat)) True
     = Returned (\<lparr>paths = [], multis = []\<rparr>, Foreign ''boom'')"
    using conjunct1 [OF WithNodeAndColored_result [where err = "Foreign ''boom''" and n = 0 and h = "\<lparr>paths = [], multis = []\<rparr>" and node = "Some (7::nat)" and colored = True]] n
    by blast
  have r2: "WithNodeAndColored 0 ?h (Ref (PathErrorRef 0)) (Some (7::nat)) True
     = Returned (?h\<lparr>paths := (paths ?h)[0 := (paths ?h ! 0)\<lparr>Node := Some 7, EnabledColor := True\<rparr>]\<rparr>,
                    Ref (PathErrorRef 0))"
    using conjunct1 [OF conjunct2 [OF conjunct2 [OF WithNodeAndColored_result [where err = "Ref (PathErrorRef 0)" and n = 0 and h = ?h and a = 0 and node = "Some (7::nat)" and colored = True]]]] p
    by blast
  from r1 r2 show ?thesis by simp
qed
text \<open>The claim as stated fails for an error that only wraps a PathError: the wrapper has
  none of the methods of \<^verbatim>\<open>Error\<close>, yet the call returns the wrapped PathError, not the
  wrapper, and changes that PathError.\<close>

theorem WithNodeAndColored_wrapped_counterexample:
  "\<not> implements_Error (WithMessage ''ctx'' (Ref (PathErrorRef 0)))
   \<and> WithNodeAndColored 0
        \<lparr>paths = [\<lparr>Path = ''.a'', Node = None, EnabledColor = False, Err = Foreign ''boom''\<rparr>],
         multis = []\<rparr>
        (WithMessage ''ctx'' (Ref (PathErrorRef 0))) (Some (7::nat)) True
     = Returned
        (\<lparr>paths = [\<lparr>Path = ''.a'', Node = Some 7, EnabledColor = True, Err = Foreign ''boom''\<rparr>],
          multis = []\<rparr>,
         Ref (PathErrorRef 0))
   \<and> Ref (PathErrorRef 0) \<noteq> WithMessage ''ctx'' (Ref (PathErrorRef 0))"
  by (simp add: WithNodeAndColored_def implements_Error_def)


subsection \<open>WithPath applied twice\<close>

text \<open>
  C7, as the code has it. \<^verbatim>\<open>WithPath(WithPath(err, inner), outer)\<close>:
  \<^item> when \<^verbatim>\<open>errors.As\<close> finds no \<^verbatim>\<open>Error\<close> on the chain of \<open>err\<close> and \<open>err\<close> renders as
    \<open>m\<close>, the result is a new PathError with path \<^verbatim>\<open>.outer.inner\<close> and cause \<open>err\<close>, and it
    renders as \<^verbatim>\<open>.outer.inner: m\<close>;
  \<^item> when \<^verbatim>\<open>errors.As\<close> finds a PathError, that PathError is returned with \<^verbatim>\<open>.outer.inner\<close>
    put in front of the path it had; when no excerpt is printed for it and its cause
    renders as \<open>m\<close>, it renders as the new path, \<^verbatim>\<open>": "\<close> and \<open>m\<close>.
  In both cases the segment of the outer call comes first.
\<close>

theorem WithPath_twice_prefix:
  "(as_Error err = None \<and> Error_str y n h err = Returned m \<longrightarrow>
      WithPath_twice k h err inner outer =
        Returned (h\<lparr>paths := paths h @
                    [\<lparr>Path = ''.'' @ outer @ ''.'' @ inner, Node = None, EnabledColor = False, Err = err\<rparr>]\<rparr>,
                  Ref (PathErrorRef (length (paths h))))
      \<and> Error_str y (Suc n)
           (h\<lparr>paths := paths h @
               [\<lparr>Path = ''.'' @ outer @ ''.'' @ inner, Node = None, EnabledColor = False, Err = err\<rparr>]\<rparr>)
           (Ref (PathErrorRef (length (paths h))))
          = Returned (''.'' @ outer @ ''.'' @ inner @ '': '' @ m))
   \<and> (as_Error err = Some (PathErrorRef a) \<and> a < length (paths h) \<longrightarrow>
      WithPath_twice k h err inner outer =
        Returned (h\<lparr>paths := (paths h)[a := (paths h ! a)
                    \<lparr>Path := ''.'' @ outer @ ''.'' @ inner @ Path (paths h ! a)\<rparr>]\<rparr>,
                  Ref (PathErrorRef a))
      \<and> (yml y ((paths h ! a)\<lparr>Path := ''.'' @ outer @ ''.'' @ inner @ Path (paths h ! a)\<rparr>) = []
           \<and> Error_str y n
                (h\<lparr>paths := (paths h)[a := (paths h ! a)
                    \<lparr>Path := ''.'' @ outer @ ''.'' @ inner @ Path (paths h ! a)\<rparr>]\<rparr>)
                (Err (paths h ! a)) = Returned m \<longrightarrow>
          Error_str y (Suc n)
             (h\<lparr>paths := (paths h)[a := (paths h ! a)
                    \<lparr>Path := ''.'' @ outer @ ''.'' @ inner @ Path (paths h ! a)\<rparr>]\<rparr>)
             (Ref (PathErrorRef a))
            = Returned (''.'' @ outer @ ''.'' @ inner @ Path (paths h ! a) @ '': '' @ m)))"
proof (intro conjI impI)
  assume A: "as_Error err = None \<and> Error_str y n h err = Returned m"
  let ?h2 = "h\<lparr>paths := paths h @
                 [\<lparr>Path = ''.'' @ outer @ ''.'' @ inner, Node = None, EnabledColor = False, Err = err\<rparr>]\<rparr>"
  from A have a: "as_Error err = None" and m: "Error_str y n h err = Returned m" by simp_all
  show "WithPath_twice k h err inner outer = Returned (?h2, Ref (PathErrorRef (length (paths h))))"
    by (simp add: WithPath_twice_def WithPath_def a)
  have "Error_str y n ?h2 err = Returned m"
    using m Error_str_plain [OF a, of y n ?h2 h] by simp
  then show "Error_str y (Suc n) ?h2 (Ref (PathErrorRef (length (paths h))))
             = Returned (''.'' @ outer @ ''.'' @ inner @ '': '' @ m)"
    by (simp add: PathError_Error_def yml_no_node)
next
  assume B: "as_Error err = Some (PathErrorRef a) \<and> a < length (paths h)"
  then have a: "as_Error err = Some (PathErrorRef a)" and l: "a < length (paths h)" by simp_all
  show "WithPath_twice k h err inner outer =
        Returned (h\<lparr>paths := (paths h)[a := (paths h ! a)
                    \<lparr>Path := ''.'' @ outer @ ''.'' @ inner @ Path (paths h ! a)\<rparr>]\<rparr>,
                  Ref (PathErrorRef a))"
    by (simp add: WithPath_twice_def WithPath_def a l)
next
  let ?e = "(paths h ! a)\<lparr>Path := ''.'' @ outer @ ''.'' @ inner @ Path (paths h ! a)\<rparr>"
  let ?h2 = "h\<lparr>paths := (paths h)[a := ?e]\<rparr>"
  assume B: "as_Error err = Some (PathErrorRef a) \<and> a < length (paths h)"
    and C: "yml y ?e = [] \<and> Error_str y n ?h2 (Err (paths h ! a)) = Returned m"
  from B have l: "a < length (paths h)" by simp
  from C have y: "yml y ?e = []" and m: "Error_str y n ?h2 (Err (paths h ! a)) = Returned m" by simp_all
  show "Error_str y (Suc n) ?h2 (Ref (PathErrorRef a))
            = Returned (''.'' @ outer @ ''.'' @ inner @ Path (paths h ! a) @ '': '' @ m)"
    using l m y by (simp add: PathError_Error_def)
qed

theorem WithPath_twice_prefix_witness:
  "WithPath_twice 0 \<lparr>paths = ([] :: nat PathError list), multis = []\<rparr> (Foreign ''boom'') ''bar'' ''foo''
     = Returned (\<lparr>paths = [\<lparr>Path = ''.foo.bar'', Node = (None :: nat option), EnabledColor = False, Err = Foreign ''boom''\<rparr>],
                  multis = []\<rparr>, Ref (PathErrorRef 0))
   \<and> Error_str \<lparr>PathString = (\<lambda>s. Some s), FilterNode = (\<lambda>q n. Some n), PrintErrorToken = (\<lambda>n c. ''> excerpt'')\<rparr>
        (Suc (Suc 0))
        \<lparr>paths = [\<lparr>Path = ''.foo.bar'', Node = (None :: nat option), EnabledColor = False, Err = Foreign ''boom''\<rparr>],
         multis = []\<rparr> (Ref (PathErrorRef 0))
     = Returned ''.foo.bar: boom''
   \<and> WithPath_twice 0
        \<lparr>paths = [\<lparr>Path = ''.baz'', Node = None, EnabledColor = False, Err = Foreign ''boom''\<rparr>],
         multis = []\<rparr> (Ref (PathErrorRef 0)) ''bar'' ''foo''
     = Returned (\<lparr>paths = [\<lparr>Path = ''.foo.bar.baz'', Node = (None :: nat option), EnabledColor = False, Err = Foreign ''boom''\<rparr>],
                  multis = []\<rparr>, Ref (PathErrorRef 0))
   \<and> Error_str \<lparr>PathString = (\<lambda>s. Some s), FilterNode = (\<lambda>q n. Some n), PrintErrorToken = (\<lambda>n c. ''> excerpt'')\<rparr>
        (Suc (Suc 0))
        \<lparr>paths = [\<lparr>Path = ''.foo.bar.baz'', Node = (None :: nat option), EnabledColor = False, Err = Foreign ''boom''\<rparr>],
         multis = []\<rparr> (Ref (PathErrorRef 0))
     = Returned ''.foo.bar.baz: boom''"
proof -
  let ?y = "\<lparr>PathString = (\<lambda>s. Some s), FilterNode = (\<lambda>q n. Some n), PrintErrorToken = (\<lambda>n c. ''> excerpt'')\<rparr> :: (nat, string) yaml"
  let ?h0 = "\<lparr>paths = ([] :: nat PathError list), multis = []\<rparr>"
  let ?h1 = "\<lparr>paths = [\<lparr>Path = ''.baz'', Node = (None :: nat option), EnabledColor = False, Err = Foreign ''boom''\<rparr>],
         multis = []\<rparr>"
  have A: "as_Error (Foreign ''boom'') = None \<and> Error_str ?y (Suc 0) ?h0 (Foreign ''boom'') = Returned ''boom''"
    by simp
  have B: "as_Error (Ref (PathErrorRef 0)) = Some (PathErrorRef 0) \<and> 0 < length (paths ?h1)"
    by simp
  have C: "yml ?y ((paths ?h1 ! 0)\<lparr>Path := ''.'' @ ''foo'' @ ''.'' @ ''bar'' @ Path (paths ?h1 ! 0)\<rparr>) = []
           \<and> Error_str ?y (Suc 0)
                (?h1\<lparr>paths := (paths ?h1)[0 := (paths ?h1 ! 0)
                    \<lparr>Path := ''.'' @ ''foo'' @ ''.'' @ ''bar'' @ Path (paths ?h1 ! 0)\<rparr>]\<rparr>)
                (Err (paths ?h1 ! 0)) = Returned ''boom''"
    by (simp add: yml_def)
  note T0 = WithPath_twice_prefix [where err = "Foreign ''boom''" and y = ?y and n = "Suc 0" and h = ?h0
      and m = "''boom''" and k = 0 and inner = "''bar''" and outer = "''foo''", THEN conjunct1, rule_format, OF A]
  note T1 = WithPath_twice_prefix [where err = "Ref (PathErrorRef 0)" and y = ?y and n = "Suc 0" and h = ?h1
      and m = "''boom''" and k = 0 and inner = "''bar''" and outer = "''foo''" and a = 0, THEN conjunct2, rule_format, OF B]
  note T1a = T1 [THEN conjunct1]
  note T1b = T1 [THEN conjunct2, rule_format, OF C]
  have r1: "WithPath_twice 0 ?h0 (Foreign ''boom'') ''bar'' ''foo''
     = Returned (\<lparr>paths = [\<lparr>Path = ''.foo.bar'', Node = None, EnabledColor = False, Err = Foreign ''boom''\<rparr>],
                  multis = []\<rparr>, Ref (PathErrorRef 0))"
    using T0 [THEN conjunct1] by simp
  have r2: "Error_str ?y (Suc (Suc 0))
        \<lparr>paths = [\<lparr>Path = ''.foo.bar'', Node = None, EnabledColor = False, Err = Foreign ''boom''\<rparr>],
         multis = []\<rparr> (Ref (PathErrorRef 0))
     = Returned ''.foo.bar: boom''"
    using T0 [THEN conjunct2] by (simp del: Error_str.simps)
  have r3: "WithPath_twice 0 ?h1 (Ref (PathErrorRef 0)) ''bar'' ''foo''
     = Returned (\<lparr>paths = [\<lparr>Path = ''.foo.bar.baz'', Node = None, EnabledColor = False, Err = Foreign ''boom''\<rparr>],
                  multis = []\<rparr>, Ref (PathErrorRef 0))"
    using T1a by simp
  have r4: "Error_str ?y (Suc (Suc 0))
        \<lparr>paths = [\<lparr>Path = ''.foo.bar.baz'', Node = None, EnabledColor = False, Err = Foreign ''boom''\<rparr>],
         multis = []\<rparr> (Ref (PathErrorRef 0))
     = Returned ''.foo.bar.baz: boom''"
    using T1b by (simp del: Error_str.simps)
  from r1 r2 r3 r4 show ?thesis by (intro conjI)
qed

text \<open>The claim as stated, for every error, fails for a MultiPathError: \<^verbatim>\<open>appendPath\<close>
  skips its child that is no \<^verbatim>\<open>Error\<close>, and the rendering is the counted summary.\<close>

theorem WithPath_twice_multi_counterexample:
  "WithPath_twice (Suc 0) \<lparr>paths = ([] :: nat PathError list), multis = [\<lparr>MultiNode = None, Errs = [Foreign ''boom'']\<rparr>]\<rparr>
      (Ref (MultiPathErrorRef 0)) ''bar'' ''foo''
     = Returned (\<lparr>paths = [], multis = [\<lparr>MultiNode = None, Errs = [Foreign ''boom'']\<rparr>]\<rparr>,
                 Ref (MultiPathErrorRef 0))
   \<and> Error_str \<lparr>PathString = (\<lambda>s. Some s), FilterNode = (\<lambda>q n. Some n), PrintErrorToken = (\<lambda>n c. ''> excerpt'')\<rparr>
        (Suc (Suc 0)) \<lparr>paths = ([] :: nat PathError list), multis = [\<lparr>MultiNode = None, Errs = [Foreign ''boom'']\<rparr>]\<rparr>
        (Ref (MultiPathErrorRef 0))
     = Returned (''1 error occurred:boom'' @ [newline, newline])
   \<and> take 8 (''1 error occurred:boom'' @ [newline, newline]) \<noteq> ''.foo.bar''"
proof -
  let ?h = "\<lparr>paths = ([] :: nat PathError list), multis = [\<lparr>MultiNode = None, Errs = [Foreign ''boom'']\<rparr>]\<rparr>"
  have a: "appendPath (Suc 0) ?h (MultiPathErrorRef 0) p = Returned ?h" for p
    by (simp add: child_def)
  have 1: "WithPath_twice (Suc 0) ?h (Ref (MultiPathErrorRef 0)) ''bar'' ''foo''
     = Returned (?h, Ref (MultiPathErrorRef 0))"
    by (simp add: WithPath_twice_def WithPath_def a del: appendPath.simps)
  have 2: "Error_str \<lparr>PathString = (\<lambda>s. Some s), FilterNode = (\<lambda>q n. Some n), PrintErrorToken = (\<lambda>n c. ''> excerpt'')\<rparr>
        (Suc (Suc 0)) ?h (Ref (MultiPathErrorRef 0))
     = Returned (''1 error occurred:boom'' @ [newline, newline])"
    by (simp add: ErrorFormat_def TrimLeft_tab_def tab_def)
  have 3: "take 8 (''1 error occurred:boom'' @ [newline, newline]) \<noteq> ''.foo.bar''"
    by simp
  from 1 2 3 show ?thesis by (intro conjI)
qed


end
